theory Spec2Isabelle
  imports Complex_Main
begin

section \<open>Python values, exceptions and diagnostics\<close>

text \<open>
  A shallow embedding of \<^verbatim>\<open>MIDI-Launcher/midi_launcher.py\<close>: the function
  \<^verbatim>\<open>parse_user_input\<close>, the class \<^verbatim>\<open>Command\<close> with its constructor, its \<^verbatim>\<open>parse_...\<close>
  methods and \<^verbatim>\<open>execute\<close>, and the loop of \<^verbatim>\<open>MIDILauncher.run\<close> over the commands for one
  message. Line numbers refer to that file.

  The values a TOML configuration hands to the program: integers, booleans (a subclass of
  \<^verbatim>\<open>int\<close> in Python), floats, strings, lists and the absent value \<^verbatim>\<open>None\<close>.

  Where the embedding idealises:
  \<^item> a float is an exact rational: there is no rounding error, no infinity and no NaN;
  \<^item> a string is a sequence of code points below 256;
  \<^item> a raised exception is the whole result: what was printed before it is not kept, except
    for the command lines already launched by the loop over the commands;
  \<^item> what \<^verbatim>\<open>execute\<close> prints at a verbosity level above 0 is left out, and the header text of
    a \<^verbatim>\<open>Command\<close> names the field but not the command.
\<close>

datatype py_value =
    PNone
  | PBool bool
  | PInt int
  | PFloat rat
  | PStr string
  | PList "py_value list"

datatype py_exn = ValueError | TypeError | IndexError | AttributeError

text \<open>
  The two sinks \<^verbatim>\<open>print_error\<close> and \<^verbatim>\<open>print_warning\<close> of \<^verbatim>\<open>parse_user_input\<close> are
  modelled by the list of calls made, in order. The text of each f-string is kept as a
  constructor with the values it interpolates.
\<close>

datatype message =
    Header string
  | WrongType
  | ValueOutside int
  | ItemOutside int
  | StepZero
  | StartGreater
  | RangeOutside string
  | RangeParseError string
  | SepRangeOutside int int
  | Unparseable string
  | InvalidEvent
  | CommandLabel
  | MappingError py_value
  | EmptyPorts

datatype sink_call = print_error message | print_warning message | print_out message

type_synonym parsed = "py_exn + (int list \<times> sink_call list)"

definition header_out :: "(message \<Rightarrow> sink_call) \<Rightarrow> string \<Rightarrow> sink_call list" where
  \<comment> \<open>\<^verbatim>\<open>if header_text: print_x(header_text)\<close>\<close>
  "header_out sink header_text = (if header_text \<noteq> [] then [sink (Header header_text)] else [])"

fun is_error :: "sink_call \<Rightarrow> bool" where
  "is_error (print_error m) = True"
| "is_error (print_warning m) = False"
| "is_error (print_out m) = False"

section \<open>Python string primitives\<close>

text \<open>
  A character is a code point below 256. The classes below are those of Python 3.11 on these
  code points.
\<close>

definition is_space :: "char \<Rightarrow> bool" where
  \<comment> \<open>\<^verbatim>\<open>\s\<close> of \<^verbatim>\<open>re\<close> on a \<^verbatim>\<open>str\<close>, and \<^verbatim>\<open>str.isspace\<close>: TAB, LF, VT, FF, CR, FS, GS, RS,
     US, SPACE, NEL (U+0085) and the no-break space (U+00A0)\<close>
  "is_space c =
     (let n = (of_char c :: nat)
      in (9 \<le> n \<and> n \<le> 13) \<or> (28 \<le> n \<and> n \<le> 32) \<or> n = 133 \<or> n = 160)"

definition is_strip_space :: "char \<Rightarrow> bool" where
  \<comment> \<open>the whitespace \<^verbatim>\<open>int()\<close> and \<^verbatim>\<open>float()\<close> skip around a number: as \<open>is_space\<close>, but
     not FS, GS, RS and US\<close>
  "is_strip_space c =
     (let n = (of_char c :: nat)
      in (9 \<le> n \<and> n \<le> 13) \<or> n = 32 \<or> n = 133 \<or> n = 160)"

definition is_digit :: "char \<Rightarrow> bool" where
  \<comment> \<open>\<^verbatim>\<open>\d\<close> of \<^verbatim>\<open>re\<close> on a \<^verbatim>\<open>str\<close>, and the digits \<^verbatim>\<open>int()\<close> and \<^verbatim>\<open>float()\<close> read: 0 to 9\<close>
  "is_digit c = (let n = (of_char c :: nat) in 48 \<le> n \<and> n \<le> 57)"

definition isdigit_char :: "char \<Rightarrow> bool" where
  \<comment> \<open>a character for which \<^verbatim>\<open>str.isdigit\<close> holds: 0 to 9 and the superscripts two, three and
     one (U+00B2, U+00B3, U+00B9), which \<^verbatim>\<open>int()\<close> does not read\<close>
  "isdigit_char c =
     (let n = (of_char c :: nat) in (48 \<le> n \<and> n \<le> 57) \<or> n = 178 \<or> n = 179 \<or> n = 185)"

definition digit_val :: "char \<Rightarrow> int" where
  "digit_val c = int (of_char c) - 48"

definition digits_val :: "string \<Rightarrow> int" where
  "digits_val ds = foldl (\<lambda>a c. 10 * a + digit_val c) 0 ds"

definition lower_char :: "char \<Rightarrow> char" where
  \<comment> \<open>the capital letters are A to Z and U+00C0 to U+00DE without the multiplication sign\<close>
  "lower_char c =
     (let n = (of_char c :: nat)
      in if (65 \<le> n \<and> n \<le> 90) \<or> (192 \<le> n \<and> n \<le> 222 \<and> n \<noteq> 215) then char_of (n + 32)
         else c)"

definition lower :: "string \<Rightarrow> string" where
  \<comment> \<open>\<^verbatim>\<open>str.lower\<close>\<close>
  "lower s = map lower_char s"

definition isdigit :: "string \<Rightarrow> bool" where
  \<comment> \<open>\<^verbatim>\<open>str.isdigit\<close>: at least one character and \<open>isdigit_char\<close> of all of them\<close>
  "isdigit s = (s \<noteq> [] \<and> list_all isdigit_char s)"

definition strip :: "string \<Rightarrow> string" where
  \<comment> \<open>without the whitespace \<^verbatim>\<open>int()\<close> and \<^verbatim>\<open>float()\<close> skip at both ends\<close>
  "strip s = rev (dropWhile is_strip_space (rev (dropWhile is_strip_space s)))"

fun digitpart :: "string \<Rightarrow> bool" where
  \<comment> \<open>digits, with single underscores allowed between two digits\<close>
  "digitpart [] = False"
| "digitpart [c] = is_digit c"
| "digitpart (c # d # cs) =
     (is_digit c \<and> (if d = CHR ''_'' then digitpart cs else digitpart (d # cs)))"

definition py_int :: "string \<Rightarrow> py_exn + int" where
  \<comment> \<open>\<^verbatim>\<open>int(s)\<close> for a string, base 10: surrounding whitespace, an optional sign, digits;
     \<^verbatim>\<open>ValueError\<close> otherwise. The interpreter's limit on the number of digits is left out.\<close>
  "py_int s =
     (let t = strip s;
          neg = (t \<noteq> [] \<and> hd t = CHR ''-'');
          body = (if t \<noteq> [] \<and> (hd t = CHR ''-'' \<or> hd t = CHR ''+'') then tl t else t)
      in if digitpart body
         then Inr ((if neg then - 1 else 1) * digits_val (filter (\<lambda>c. c \<noteq> CHR ''_'') body))
         else Inl ValueError)"

fun split_sep :: "char \<Rightarrow> string \<Rightarrow> string list" where
  \<comment> \<open>\<^verbatim>\<open>s.split(sep)\<close> for a one-character separator\<close>
  "split_sep sep [] = [[]]"
| "split_sep sep (c # cs) =
     (if c = sep then [] # split_sep sep cs
      else (case split_sep sep cs of p # ps \<Rightarrow> (c # p) # ps | [] \<Rightarrow> [[c]]))"

function re_split_from :: "string \<Rightarrow> string \<Rightarrow> string list" where
  \<comment> \<open>\<^verbatim>\<open>re.split(r',\s*|\s+', s)\<close>, scanning left to right; the first argument is the
     piece read so far, reversed\<close>
  "re_split_from cur [] = [rev cur]"
| "re_split_from cur (c # cs) =
     (if c = CHR '','' \<or> is_space c
      then rev cur # re_split_from [] (dropWhile is_space cs)
      else re_split_from (c # cur) cs)"
  by pat_completeness auto
termination
  by (relation "measure (\<lambda>(cur, s). length s)")
     (auto simp: le_imp_less_Suc length_dropWhile_le)

definition re_split :: "string \<Rightarrow> string list" where
  "re_split s = re_split_from [] s"

section \<open>The colon-range pattern\<close>

definition take_int :: "string \<Rightarrow> (string \<times> string) option" where
  \<comment> \<open>\<^verbatim>\<open>-?\d+\<close> matched greedily at the start: the literal and the rest\<close>
  "take_int s =
     (let sign = (if s \<noteq> [] \<and> hd s = CHR ''-'' then ''-'' else []);
          r = drop (length sign) s;
          ds = takeWhile is_digit r
      in if ds = [] then None else Some (sign @ ds, dropWhile is_digit r))"

definition pattern_match :: "string \<Rightarrow> (string \<times> string \<times> string option) option" where
  \<comment> \<open>\<^verbatim>\<open>re.compile(r'(?P<start>-?\d+)\s*:\s*(?P<end>-?\d+)\s*(:\s*(?P<step>-?\d+))?').match(s)\<close>:
     anchored at the start only; the groups start, end and step\<close>
  "pattern_match s =
     (case take_int s of
        None \<Rightarrow> None
      | Some (start, r1) \<Rightarrow>
          (case dropWhile is_space r1 of
             [] \<Rightarrow> None
           | c # r2 \<Rightarrow>
               if c \<noteq> CHR '':'' then None
               else (case take_int (dropWhile is_space r2) of
                       None \<Rightarrow> None
                     | Some (end, r3) \<Rightarrow>
                         Some (start, end,
                           (case dropWhile is_space r3 of
                              [] \<Rightarrow> None
                            | c' # r4 \<Rightarrow>
                                if c' \<noteq> CHR '':'' then None
                                else map_option fst (take_int (dropWhile is_space r4)))))))"

section \<open>Python ranges\<close>

definition py_range :: "int \<Rightarrow> int \<Rightarrow> int \<Rightarrow> int list" where
  \<comment> \<open>\<^verbatim>\<open>list(range(start, stop, step))\<close> for a non-zero step\<close>
  "py_range start stop step =
     (if 0 < step then map (\<lambda>k. start + step * k) [0 .. (stop - start + step - 1) div step - 1]
      else if step < 0 then map (\<lambda>k. start + step * k) [0 .. (start - stop - step - 1) div (- step) - 1]
      else [])"

definition range3 :: "int \<Rightarrow> int \<Rightarrow> int \<Rightarrow> py_exn + int list" where
  \<comment> \<open>\<^verbatim>\<open>range()\<close> raises \<^verbatim>\<open>ValueError\<close> when its third argument is zero\<close>
  "range3 start stop step = (if step = 0 then Inl ValueError else Inr (py_range start stop step))"

section \<open>parse_user_input\<close>

definition then_exn :: "py_exn + 'a \<Rightarrow> ('a \<Rightarrow> py_exn + 'b) \<Rightarrow> py_exn + 'b" where
  \<comment> \<open>sequencing: an exception raised by the first computation propagates\<close>
  "then_exn m f = (case m of Inl e \<Rightarrow> Inl e | Inr x \<Rightarrow> f x)"

fun int_of_bool :: "bool \<Rightarrow> int" where
  "int_of_bool True = 1"
| "int_of_bool False = 0"

fun py_eq_int :: "py_value \<Rightarrow> int \<Rightarrow> bool" where
  \<comment> \<open>\<^verbatim>\<open>v == n\<close> for an integer \<^verbatim>\<open>n\<close>: a string, a list or \<^verbatim>\<open>None\<close> never equals a number\<close>
  "py_eq_int (PInt i) n = (i = n)"
| "py_eq_int (PBool b) n = (int_of_bool b = n)"
| "py_eq_int (PFloat r) n = (r = of_int n)"
| "py_eq_int (PStr s) n = False"
| "py_eq_int (PList l) n = False"
| "py_eq_int PNone n = False"

fun int_of :: "py_value \<Rightarrow> py_exn + int" where
  \<comment> \<open>the builtin \<^verbatim>\<open>int(v)\<close>\<close>
  "int_of (PInt i) = Inr i"
| "int_of (PBool b) = Inr (int_of_bool b)"
| "int_of (PFloat r) = Inr (if 0 \<le> r then \<lfloor>r\<rfloor> else \<lceil>r\<rceil>)"
| "int_of (PStr s) = py_int s"
| "int_of (PList l) = Inl TypeError"
| "int_of PNone = Inl TypeError"

definition outside :: "int \<Rightarrow> int \<Rightarrow> int \<times> int \<Rightarrow> bool" where
  \<comment> \<open>\<^verbatim>\<open>a < default_range[0] or b > default_range[1]\<close>\<close>
  "outside a b default_range = (a < fst default_range \<or> b > snd default_range)"

definition parse_colon ::
  "string \<Rightarrow> string \<Rightarrow> string option \<Rightarrow> string \<Rightarrow> int \<times> int \<Rightarrow> string \<Rightarrow> parsed" where
  \<comment> \<open>lines 193 to 216: the body of \<^verbatim>\<open>if match:\<close>, given the three groups\<close>
  "parse_colon start end group_step user_input default_range header_text =
     (let step = (case group_step of None \<Rightarrow> PInt 1 | Some s \<Rightarrow> PStr s) in
      if py_eq_int step 0
      then Inr ([], header_out print_error header_text @ [print_error StepZero])
      else
        then_exn (py_int start) (\<lambda>s. then_exn (py_int end) (\<lambda>e.
          if s > e
          then Inr ([], header_out print_error header_text @ [print_error StartGreater])
          else
            then_exn (int_of step) (\<lambda>st.
              let start' = (if st < 0 then end else start);
                  end' = (if st < 0 then start else end)
              in then_exn (py_int start') (\<lambda>s'. then_exn (py_int end') (\<lambda>e'.
                   then_exn (range3 s' (e' + 1) st) (\<lambda>xs.
                     Inr (xs,
                          if outside s' e' default_range
                          then header_out print_warning header_text
                               @ [print_warning (RangeOutside user_input)]
                          else []))))))))"

definition unpack2 :: "string list \<Rightarrow> py_exn + (string \<times> string)" where
  \<comment> \<open>\<^verbatim>\<open>start, end = parts\<close>: \<^verbatim>\<open>ValueError\<close> unless there are exactly two parts\<close>
  "unpack2 parts = (case parts of [a, b] \<Rightarrow> Inr (a, b) | _ \<Rightarrow> Inl ValueError)"

definition parse_separated ::
  "string \<Rightarrow> int \<times> int \<Rightarrow> string \<Rightarrow> char \<Rightarrow> parsed" where
  \<comment> \<open>lines 221 to 238: the body of \<^verbatim>\<open>if range_separator in user_input:\<close>\<close>
  "parse_separated user_input default_range header_text range_separator =
     (case then_exn (unpack2 (split_sep range_separator user_input)) (\<lambda>(a, b).
             then_exn (py_int a) (\<lambda>s. then_exn (py_int b) (\<lambda>e. Inr (s, e)))) of
        Inl ValueError \<Rightarrow>
          Inr ([], header_out print_error header_text @ [print_error (RangeParseError user_input)])
      | Inl other \<Rightarrow> Inl other
      | Inr (s, e) \<Rightarrow>
          if s > e
          then Inr ([], header_out print_error header_text @ [print_error StartGreater])
          else Inr (py_range s (e + 1) 1,
                    if outside s e default_range
                    then header_out print_warning header_text
                         @ [print_warning (SepRangeOutside s e)]
                    else []))"

definition parse_single ::
  "string \<Rightarrow> int \<times> int \<Rightarrow> string \<Rightarrow> char \<Rightarrow> parsed" where
  \<comment> \<open>lines 179 to 243: the string case once the input is known not to split\<close>
  "parse_single user_input default_range header_text range_separator =
     (if isdigit user_input
      then then_exn (py_int user_input) (\<lambda>number.
             Inr ([number],
                  if outside number number default_range
                  then header_out print_warning header_text
                       @ [print_warning (ValueOutside number)]
                  else []))
      else
        (case pattern_match (lower user_input) of
           Some (start, end, group_step) \<Rightarrow>
             parse_colon start end group_step user_input default_range header_text
         | None \<Rightarrow>
             if range_separator \<in> set user_input
             then parse_separated user_input default_range header_text range_separator
             else Inr ([], header_out print_error header_text
                           @ [print_error (Unparseable user_input)])))"

fun extend_all :: "parsed list \<Rightarrow> parsed" where
  \<comment> \<open>\<^verbatim>\<open>for item in items: resulting_list.extend(...)\<close>: the results in order, up to
     the first exception\<close>
  "extend_all [] = Inr ([], [])"
| "extend_all (r # rs) =
     then_exn r (\<lambda>(xs, out).
       then_exn (extend_all rs) (\<lambda>(ys, out'). Inr (xs @ ys, out @ out')))"

lemma re_split_from_size:
  "sum_list (map length (re_split_from cur s)) + length (re_split_from cur s)
     \<le> Suc (length cur + length s)"
proof (induction cur s rule: re_split_from.induct)
  case (1 cur)
  show ?case by simp
next
  case (2 cur c cs)
  show ?case
  proof (cases "c = CHR '','' \<or> is_space c")
    case True
    have "length (dropWhile is_space cs) \<le> length cs"
      by (rule length_dropWhile_le)
    with 2(1)[OF True] True show ?thesis by simp
  next
    case False
    with 2(2)[OF False] show ?thesis by simp
  qed
qed

lemma re_split_item_shorter:
  assumes "item \<in> set (re_split s)" and "1 < length (re_split s)"
  shows "length item < length s"
proof -
  have "length item \<le> sum_list (map length (re_split s))"
    using assms(1) by (simp add: member_le_sum_list)
  moreover have "sum_list (map length (re_split s)) + length (re_split s) \<le> Suc (length s)"
    using re_split_from_size[of "[]" s] by (simp add: re_split_def)
  ultimately show ?thesis using assms(2) by linarith
qed

function parse_string :: "string \<Rightarrow> int \<times> int \<Rightarrow> string \<Rightarrow> char \<Rightarrow> parsed" where
  \<comment> \<open>lines 158 to 243: \<^verbatim>\<open>parse_user_input\<close> on a string\<close>
  "parse_string user_input default_range header_text range_separator =
     (if user_input = [] then Inr ([], [])
      else if user_input = ''all''
      then Inr (py_range (fst default_range) (snd default_range + 1) 1, [])
      else if 1 < length (re_split user_input)
      then extend_all
             (map (\<lambda>item. parse_string item default_range header_text range_separator)
                  (re_split user_input))
      else parse_single user_input default_range header_text range_separator)"
  by pat_completeness auto
termination
  by (relation "measure (\<lambda>(s, dr, hdr, sep). length s)")
     (auto simp: re_split_item_shorter)

declare parse_string.simps [simp del]

definition int_item :: "int \<Rightarrow> int \<times> int \<Rightarrow> string \<Rightarrow> parsed" where
  \<comment> \<open>lines 250 to 255: an integer element of a list\<close>
  "int_item item default_range header_text =
     Inr ([item],
          if outside item item default_range
          then header_out print_warning header_text @ [print_warning (ItemOutside item)]
          else [])"

fun parse_user_input :: "py_value \<Rightarrow> int \<times> int \<Rightarrow> string \<Rightarrow> char \<Rightarrow> parsed" where
  "parse_user_input PNone default_range header_text range_separator =
     Inr ([], header_out print_error header_text @ [print_error WrongType])"
| "parse_user_input (PFloat r) default_range header_text range_separator =
     Inr ([], header_out print_error header_text @ [print_error WrongType])"
| "parse_user_input (PInt n) default_range header_text range_separator =
     Inr ([n],
          if outside n n default_range
          then header_out print_warning header_text @ [print_warning (ValueOutside n)]
          else [])"
| "parse_user_input (PBool b) default_range header_text range_separator =
     Inr ([int_of_bool b],
          if outside (int_of_bool b) (int_of_bool b) default_range
          then header_out print_warning header_text
               @ [print_warning (ValueOutside (int_of_bool b))]
          else [])"
| "parse_user_input (PStr s) default_range header_text range_separator =
     parse_string s default_range header_text range_separator"
| "parse_user_input (PList items) default_range header_text range_separator =
     extend_all
       (map (\<lambda>item.
               case item of
                 PInt n \<Rightarrow> int_item n default_range header_text
               | PBool b \<Rightarrow> int_item (int_of_bool b) default_range header_text
               | PStr s \<Rightarrow> parse_string s default_range header_text range_separator
               | PList l \<Rightarrow> parse_user_input item default_range header_text range_separator
               | _ \<Rightarrow> Inr ([], []))
            items)"

section \<open>More Python primitives\<close>

fun truthy :: "py_value \<Rightarrow> bool" where
  "truthy PNone = False"
| "truthy (PBool b) = b"
| "truthy (PInt i) = (i \<noteq> 0)"
| "truthy (PFloat r) = (r \<noteq> 0)"
| "truthy (PStr s) = (s \<noteq> [])"
| "truthy (PList l) = (l \<noteq> [])"

fun py_eq_str :: "py_value \<Rightarrow> string \<Rightarrow> bool" where
  \<comment> \<open>\<^verbatim>\<open>v == t\<close> for a string \<^verbatim>\<open>t\<close>\<close>
  "py_eq_str (PStr s) t = (s = t)"
| "py_eq_str v t = False"

fun starts_with :: "string \<Rightarrow> string \<Rightarrow> bool" where
  "starts_with [] s = True"
| "starts_with (p # ps) [] = False"
| "starts_with (p # ps) (c # cs) = (p = c \<and> starts_with ps cs)"

fun contains :: "string \<Rightarrow> string \<Rightarrow> bool" where
  \<comment> \<open>\<^verbatim>\<open>p in s\<close> for two strings\<close>
  "contains p [] = (p = [])"
| "contains p (c # cs) = (starts_with p (c # cs) \<or> contains p cs)"

function replace_from :: "string \<Rightarrow> string \<Rightarrow> string \<Rightarrow> string" where
  "replace_from [] old new = []"
| "replace_from (c # cs) old new =
     (if old \<noteq> [] \<and> starts_with old (c # cs)
      then new @ replace_from (drop (length old - 1) cs) old new
      else c # replace_from cs old new)"
  by pat_completeness auto
termination
  by (relation "measure (\<lambda>(s, old, new). length s)") auto

definition replace :: "string \<Rightarrow> string \<Rightarrow> string \<Rightarrow> string" where
  \<comment> \<open>\<^verbatim>\<open>s.replace(old, new)\<close>: every occurrence, left to right, without overlap\<close>
  "replace s old new =
     (if old = [] then new @ concat (map (\<lambda>c. c # new) s) else replace_from s old new)"

fun digits_of :: "nat \<Rightarrow> string" where
  "digits_of n =
     (if n < 10 then [char_of (48 + n)] else digits_of (n div 10) @ [char_of (48 + n mod 10)])"

declare digits_of.simps [simp del]

definition str_int :: "int \<Rightarrow> string" where
  \<comment> \<open>\<^verbatim>\<open>str(i)\<close> for an integer\<close>
  "str_int i = (if i < 0 then CHR ''-'' # digits_of (nat (- i)) else digits_of (nat i))"

definition py_round :: "rat \<Rightarrow> int" where
  \<comment> \<open>\<^verbatim>\<open>round(x)\<close>: to the nearest integer, a tie to the even one\<close>
  "py_round x =
     (let f = \<lfloor>x\<rfloor>; d = x - of_int f
      in if d < 1 / 2 then f else if 1 / 2 < d then f + 1 else if even f then f else f + 1)"

definition py_round2 :: "rat \<Rightarrow> rat" where
  \<comment> \<open>\<^verbatim>\<open>round(x, 2)\<close>\<close>
  "py_round2 x = of_int (py_round (x * 100)) / 100"

fun num_of :: "py_value \<Rightarrow> py_exn + rat" where
  \<comment> \<open>the operand of an arithmetic operator: a number, or \<^verbatim>\<open>TypeError\<close>\<close>
  "num_of (PInt i) = Inr (of_int i)"
| "num_of (PBool b) = Inr (of_int (int_of_bool b))"
| "num_of (PFloat r) = Inr r"
| "num_of v = Inl TypeError"

fun py_index :: "py_value \<Rightarrow> nat \<Rightarrow> py_exn + py_value" where
  \<comment> \<open>\<^verbatim>\<open>v[i]\<close> for a non-negative index\<close>
  "py_index (PList l) i = (if i < length l then Inr (l ! i) else Inl IndexError)"
| "py_index (PStr s) i = (if i < length s then Inr (PStr [s ! i]) else Inl IndexError)"
| "py_index v i = Inl TypeError"

fun iterate :: "py_value \<Rightarrow> py_exn + py_value list" where
  \<comment> \<open>\<^verbatim>\<open>for x in v\<close>\<close>
  "iterate (PList l) = Inr l"
| "iterate (PStr s) = Inr (map (\<lambda>c. PStr [c]) s)"
| "iterate v = Inl TypeError"

fun map_exn :: "('a \<Rightarrow> py_exn + 'b) \<Rightarrow> 'a list \<Rightarrow> py_exn + 'b list" where
  \<comment> \<open>a list comprehension whose element expression may raise\<close>
  "map_exn f [] = Inr []"
| "map_exn f (x # xs) = then_exn (f x) (\<lambda>y. then_exn (map_exn f xs) (\<lambda>ys. Inr (y # ys)))"

fun str_in :: "py_value \<Rightarrow> string \<Rightarrow> py_exn + bool" where
  \<comment> \<open>\<^verbatim>\<open>v in s\<close> for a string \<^verbatim>\<open>s\<close>: the left operand must be a string\<close>
  "str_in (PStr p) s = Inr (contains p s)"
| "str_in v s = Inl TypeError"

fun int_in :: "int \<Rightarrow> py_value \<Rightarrow> py_exn + bool" where
  \<comment> \<open>\<^verbatim>\<open>n in v\<close> for an integer \<^verbatim>\<open>n\<close>\<close>
  "int_in n (PList l) = Inr (list_ex (\<lambda>v. py_eq_int v n) l)"
| "int_in n v = Inl TypeError"

fun str_lower :: "py_value \<Rightarrow> py_exn + py_value" where
  \<comment> \<open>\<^verbatim>\<open>v.lower()\<close>: only strings have the method\<close>
  "str_lower (PStr s) = Inr (PStr (lower s))"
| "str_lower v = Inl AttributeError"

fun take_digits :: "string \<Rightarrow> string \<times> string" where
  \<comment> \<open>the longest prefix of digits with single underscores between them, the underscores
     removed, and the rest\<close>
  "take_digits [] = ([], [])"
| "take_digits [c] = (if is_digit c then ([c], []) else ([], [c]))"
| "take_digits (c # u # cs) =
     (if \<not> is_digit c then ([], c # u # cs)
      else if u = CHR ''_''
      then (if cs \<noteq> [] \<and> is_digit (hd cs)
            then (case take_digits cs of (a, r) \<Rightarrow> (c # a, r))
            else ([c], u # cs))
      else (case take_digits (u # cs) of (a, r) \<Rightarrow> (c # a, r)))"

definition scale10 :: "rat \<Rightarrow> int \<Rightarrow> rat" where
  "scale10 m x = (if 0 \<le> x then m * 10 ^ nat x else m / 10 ^ nat (- x))"

definition py_float :: "string \<Rightarrow> py_exn + rat" where
  \<comment> \<open>\<^verbatim>\<open>float(s)\<close> for a string: surrounding whitespace, an optional sign, digits with an
     optional fraction and an optional exponent; \<^verbatim>\<open>ValueError\<close> otherwise. The value is
     the exact rational. The spellings \<^verbatim>\<open>inf\<close>, \<^verbatim>\<open>infinity\<close> and \<^verbatim>\<open>nan\<close> denote floats
     that are no rationals and are not covered.\<close>
  "py_float s =
     (let t = strip s;
          neg = (t \<noteq> [] \<and> hd t = CHR ''-'');
          u = (if t \<noteq> [] \<and> (hd t = CHR ''-'' \<or> hd t = CHR ''+'') then tl t else t);
          (ip, r1) = take_digits u;
          (fp, r2) = (if r1 \<noteq> [] \<and> hd r1 = CHR ''.'' then take_digits (tl r1) else ([], r1));
          has_exp = (r2 \<noteq> [] \<and> (hd r2 = CHR ''e'' \<or> hd r2 = CHR ''E''));
          r3 = (if has_exp then tl r2 else r2);
          xneg = (has_exp \<and> r3 \<noteq> [] \<and> hd r3 = CHR ''-'');
          r4 = (if has_exp \<and> r3 \<noteq> [] \<and> (hd r3 = CHR ''-'' \<or> hd r3 = CHR ''+'') then tl r3 else r3);
          (xp, r5) = (if has_exp then take_digits r4 else ([], r4));
          mantissa = of_int (digits_val ip) + of_int (digits_val fp) / 10 ^ length fp;
          x = (if xneg then - digits_val xp else digits_val xp)
      in if (ip \<noteq> [] \<or> fp \<noteq> []) \<and> (if has_exp then xp \<noteq> [] else True) \<and> r5 = []
         then Inr ((if neg then - 1 else 1) * scale10 mantissa x)
         else Inl ValueError)"

section \<open>The Command class\<close>

type_synonym config = "(string \<times> py_value) list"

definition config_get :: "config \<Rightarrow> string \<Rightarrow> py_value \<Rightarrow> py_value" where
  \<comment> \<open>\<^verbatim>\<open>config.get(key, dflt)\<close>\<close>
  "config_get config key dflt = (case map_of config key of None \<Rightarrow> dflt | Some v \<Rightarrow> v)"

text \<open>
  The attributes of a \<^verbatim>\<open>Command\<close> object. Each one holds whatever the configuration gave
  until the matching \<^verbatim>\<open>parse_...\<close> method overwrites it. The attributes \<^verbatim>\<open>note\<close> and
  \<^verbatim>\<open>values\<close> are named \<open>note_f\<close> and \<open>values_f\<close> here.
\<close>

record Command =
  active :: py_value
  channels :: py_value
  command :: py_value
  control :: py_value
  event :: py_value
  mapping :: py_value
  name :: py_value
  note_f :: py_value
  ports :: py_value
  values_f :: py_value
  velocities :: py_value

type_synonym built = "py_exn + (Command \<times> sink_call list)"

definition int_list :: "int list \<Rightarrow> py_value" where
  "int_list xs = PList (map PInt xs)"

definition parse_channels :: "Command \<Rightarrow> built" where
  "parse_channels self =
     then_exn (parse_user_input (channels self) (1, 16) ''Command (channels field): '' CHR ''-'')
       (\<lambda>(xs, out). Inr (self\<lparr>channels := int_list xs\<rparr>, out))"

definition parse_controls :: "Command \<Rightarrow> built" where
  "parse_controls self =
     then_exn (parse_user_input (control self) (0, 127) ''Command (controls field): '' CHR ''-'')
       (\<lambda>(xs, out). Inr (self\<lparr>control := int_list xs\<rparr>, out))"

definition parse_mapping :: "Command \<Rightarrow> built" where
  \<comment> \<open>lines 508 to 540\<close>
  "parse_mapping self =
     (case mapping self of
        PList l \<Rightarrow>
          if length l = 2 then Inr (self, [])
          else Inr (self\<lparr>mapping := PList [PInt 0, PInt 127]\<rparr>,
                    [print_out CommandLabel, print_out (MappingError (PList l))])
      | PStr s \<Rightarrow>
          if s = ''all'' then Inr (self\<lparr>mapping := PList [PInt 0, PInt 127]\<rparr>, [])
          else
            (case map_exn py_float (split_sep CHR '','' s) of
               Inl ValueError \<Rightarrow>
                 Inr (self, [print_out CommandLabel, print_out (MappingError (PStr s))])
             | Inl other \<Rightarrow> Inl other
             | Inr fs \<Rightarrow>
                 if length fs \<noteq> 2
                 then Inr (self\<lparr>mapping := PList [PInt 0, PInt 127]\<rparr>,
                           [print_out CommandLabel,
                            print_out (MappingError (PList [PInt 0, PInt 127]))])
                 else Inr (self\<lparr>mapping := PList (map PFloat fs)\<rparr>, []))
      | _ \<Rightarrow> Inr (self, []))"

definition parse_notes :: "Command \<Rightarrow> built" where
  "parse_notes self =
     then_exn (parse_user_input (note_f self) (0, 127) ''Command (note field): '' CHR ''-'')
       (\<lambda>(xs, out). Inr (self\<lparr>note_f := int_list xs\<rparr>, out))"

definition parse_ports :: "Command \<Rightarrow> built" where
  \<comment> \<open>lines 557 to 565: four \<^verbatim>\<open>if\<close> statements in sequence\<close>
  "parse_ports self =
     (let out = (if py_eq_str (ports self) [] then [print_out CommandLabel, print_out EmptyPorts]
                 else []);
          p1 = (if py_eq_str (ports self) ''all'' then PList [PStr ''all''] else ports self);
          p2 = (case p1 of PStr s \<Rightarrow> PList [PStr (lower s)] | _ \<Rightarrow> p1)
      in case p2 of
           PList l \<Rightarrow> then_exn (map_exn str_lower l) (\<lambda>l'. Inr (self\<lparr>ports := PList l'\<rparr>, out))
         | _ \<Rightarrow> Inr (self\<lparr>ports := p2\<rparr>, out))"

definition parse_values :: "Command \<Rightarrow> built" where
  "parse_values self =
     then_exn (parse_user_input (values_f self) (0, 127) ''Command (values field): '' CHR ''-'')
       (\<lambda>(xs, out). Inr (self\<lparr>values_f := int_list xs\<rparr>, out))"

definition parse_velocities :: "Command \<Rightarrow> built" where
  "parse_velocities self =
     then_exn (parse_user_input (velocities self) (0, 127) ''Command (velocities field): '' CHR ''-'')
       (\<lambda>(xs, out). Inr (self\<lparr>velocities := int_list xs\<rparr>, out))"

definition next_step :: "built \<Rightarrow> (Command \<Rightarrow> built) \<Rightarrow> built" where
  \<comment> \<open>one method call after another on the same object; what was printed accumulates\<close>
  "next_step b f =
     then_exn b (\<lambda>(self, out). then_exn (f self) (\<lambda>(self', out'). Inr (self', out @ out')))"

definition event_valid :: "py_value \<Rightarrow> bool" where
  \<comment> \<open>\<^verbatim>\<open>str(self.event).lower() in ('note_on', 'note_off', 'control_change')\<close>; \<^verbatim>\<open>str\<close> of
     a value that is no string never spells one of the three names\<close>
  "event_valid ev =
     (case ev of
        PStr s \<Rightarrow> lower s \<in> set [''note_on'', ''note_off'', ''control_change'']
      | _ \<Rightarrow> False)"

definition Command_init :: "config \<Rightarrow> built" where
  \<comment> \<open>\<^verbatim>\<open>Command.__init__\<close>, lines 395 to 426\<close>
  "Command_init config =
     (let self = \<lparr>active = config_get config ''active'' (PBool True),
                  channels = config_get config ''channels'' (PStr ''all''),
                  command = config_get config ''command'' PNone,
                  control = config_get config ''control'' (PStr ''all''),
                  event = config_get config ''event'' PNone,
                  mapping = config_get config ''mapping'' (PList [PInt 0, PInt 127]),
                  name = config_get config ''name'' PNone,
                  note_f = config_get config ''note'' (PStr ''all''),
                  ports = config_get config ''ports'' (PStr ''all''),
                  values_f = config_get config ''values'' (PStr ''all''),
                  velocities = config_get config ''velocities'' (PStr ''all'')\<rparr>
      in if \<not> event_valid (event self)
         then Inr (self\<lparr>active := PBool False\<rparr>, [print_out InvalidEvent])
         else next_step (next_step (next_step (next_step (next_step (next_step
                (parse_channels self) parse_controls) parse_mapping) parse_notes)
                parse_ports) parse_values) parse_velocities)"

section \<open>MIDI messages and Command.execute\<close>

text \<open>
  A \<^verbatim>\<open>mido\<close> message: the three kinds the launcher reacts to carry a channel and two data
  bytes (note and velocity, or control and value); any other kind is kept by its type name
  and its channel, if it has one. Reading an attribute the message does not have raises
  \<^verbatim>\<open>AttributeError\<close>.
\<close>

datatype midi_message =
    NoteOn int int int
  | NoteOff int int int
  | ControlChange int int int
  | OtherMessage string "int option"

fun msg_type :: "midi_message \<Rightarrow> string" where
  "msg_type (NoteOn ch n v) = ''note_on''"
| "msg_type (NoteOff ch n v) = ''note_off''"
| "msg_type (ControlChange ch c v) = ''control_change''"
| "msg_type (OtherMessage t ch) = t"

fun msg_channel :: "midi_message \<Rightarrow> py_exn + int" where
  "msg_channel (NoteOn ch n v) = Inr ch"
| "msg_channel (NoteOff ch n v) = Inr ch"
| "msg_channel (ControlChange ch c v) = Inr ch"
| "msg_channel (OtherMessage t ch) = (case ch of None \<Rightarrow> Inl AttributeError | Some c \<Rightarrow> Inr c)"

fun msg_note :: "midi_message \<Rightarrow> py_exn + int" where
  "msg_note (NoteOn ch n v) = Inr n"
| "msg_note (NoteOff ch n v) = Inr n"
| "msg_note m = Inl AttributeError"

fun msg_velocity :: "midi_message \<Rightarrow> py_exn + int" where
  "msg_velocity (NoteOn ch n v) = Inr v"
| "msg_velocity (NoteOff ch n v) = Inr v"
| "msg_velocity m = Inl AttributeError"

fun msg_control :: "midi_message \<Rightarrow> py_exn + int" where
  "msg_control (ControlChange ch c v) = Inr c"
| "msg_control m = Inl AttributeError"

fun msg_value :: "midi_message \<Rightarrow> py_exn + int" where
  "msg_value (ControlChange ch c v) = Inr v"
| "msg_value m = Inl AttributeError"

definition select_value :: "Command \<Rightarrow> midi_message \<Rightarrow> py_exn + int option" where
  \<comment> \<open>lines 462 to 482: the value of the message, or \<^verbatim>\<open>None\<close> where the method returns
     because note, velocity, control or value does not match\<close>
  "select_value self message =
     (if py_eq_str (event self) ''note_on'' \<or> py_eq_str (event self) ''note_off''
      then
        then_exn (if \<not> py_eq_str (note_f self) ''all''
                  then then_exn (msg_note message) (\<lambda>n.
                         then_exn (int_in n (note_f self)) (\<lambda>found. Inr (\<not> found)))
                  else Inr False) (\<lambda>no_note.
          if no_note then Inr None
          else then_exn (msg_velocity message) (\<lambda>v.
                 then_exn (int_in v (velocities self)) (\<lambda>found.
                   if \<not> found then Inr None
                   else then_exn (msg_velocity message) (\<lambda>velocity. Inr (Some velocity)))))
      else if py_eq_str (event self) ''control_change''
      then
        then_exn (msg_control message) (\<lambda>c.
          then_exn (int_in c (control self)) (\<lambda>found.
            if \<not> found then Inr None
            else then_exn (msg_value message) (\<lambda>v.
                   then_exn (int_in v (values_f self)) (\<lambda>found'.
                     if \<not> found' then Inr None
                     else then_exn (msg_value message) (\<lambda>val. Inr (Some val))))))
      else Inr (Some 0))"

definition percentage_of :: "int \<Rightarrow> int" where
  \<comment> \<open>line 483: \<^verbatim>\<open>round(value / 127 * 100)\<close>\<close>
  "percentage_of v = py_round (of_int v / 127 * 100)"

definition decimal_of :: "py_value \<Rightarrow> int \<Rightarrow> py_exn + rat" where
  \<comment> \<open>line 484: \<^verbatim>\<open>round(self.mapping[0] + value / 127 * (self.mapping[1] - self.mapping[0]), 2)\<close>,
     the operands read from left to right\<close>
  "decimal_of m v =
     then_exn (py_index m 0) (\<lambda>a.
       then_exn (py_index m 1) (\<lambda>b.
         then_exn (py_index m 0) (\<lambda>a'.
           then_exn (num_of b) (\<lambda>hi.
             then_exn (num_of a') (\<lambda>lo'.
               then_exn (num_of a) (\<lambda>lo.
                 Inr (py_round2 (lo + of_int v / 127 * (hi - lo'))))))))) "

definition substitute :: "(rat \<Rightarrow> string) \<Rightarrow> string \<Rightarrow> int \<Rightarrow> int \<Rightarrow> rat \<Rightarrow> string" where
  \<comment> \<open>lines 487 to 490: the four \<^verbatim>\<open>replace\<close> calls; the first argument stands for \<^verbatim>\<open>str\<close> on a
     float\<close>
  "substitute str_float template v percentage decimal =
     replace (replace (replace (replace template ''$VELOCITY'' (str_int v))
                ''$VALUE'' (str_int v))
                ''$PERCENTAGE'' (str_int percentage))
                ''$DECIMAL'' (str_float decimal)"

definition execute ::
  "(rat \<Rightarrow> string) \<Rightarrow> Command \<Rightarrow> midi_message \<Rightarrow> string \<Rightarrow> py_exn + string option" where
  \<comment> \<open>\<^verbatim>\<open>Command.execute\<close>, lines 429 to 495: the command line handed to
     \<^verbatim>\<open>subprocess.run\<close>, \<^verbatim>\<open>None\<close> where the method returns without launching, or the
     exception raised. What is printed at a verbosity level above 0 is left out.\<close>
  "execute str_float self message port_name =
     (if \<not> truthy (active self) then Inr None
      else if \<not> py_eq_str (event self) (msg_type message) then Inr None
      else
        then_exn (then_exn (iterate (ports self))
                    (map_exn (\<lambda>port. str_in port (lower port_name)))) (\<lambda>port_name_matches.
          if ports self \<noteq> PList [PStr ''all''] \<and> \<not> list_ex (\<lambda>b. b) port_name_matches
          then Inr None
          else
            then_exn (msg_channel message) (\<lambda>ch.
              then_exn (int_in (ch + 1) (channels self)) (\<lambda>found.
                if \<not> found then Inr None
                else
                  then_exn (select_value self message) (\<lambda>selected.
                    case selected of
                      None \<Rightarrow> Inr None
                    | Some v \<Rightarrow>
                        then_exn (decimal_of (mapping self) v) (\<lambda>decimal.
                          case command self of
                            PStr template \<Rightarrow>
                              Inr (Some (substitute str_float template v (percentage_of v) decimal))
                          | _ \<Rightarrow> Inl AttributeError))))))"

section \<open>The MIDILauncher class\<close>


fun build_commands :: "config list \<Rightarrow> py_exn + (Command list \<times> sink_call list)" where
  \<comment> \<open>lines 331 to 335 of \<^verbatim>\<open>parse_config_file\<close>: an empty table is skipped, every other one
     becomes a \<^verbatim>\<open>Command\<close> appended to \<^verbatim>\<open>self.commands\<close>\<close>
  "build_commands [] = Inr ([], [])"
| "build_commands (cmd # rest) =
     (if cmd = [] then build_commands rest
      else then_exn (Command_init cmd) (\<lambda>(c, out).
             then_exn (build_commands rest) (\<lambda>(cs, out'). Inr (c # cs, out @ out'))))"



section \<open>Notions used to state the properties\<close>

definition no_sep :: "string \<Rightarrow> bool" where
  \<comment> \<open>a single token: no comma and no whitespace, so \<^verbatim>\<open>re.split\<close> leaves it whole\<close>
  "no_sep s = list_all (\<lambda>c. c \<noteq> CHR '','' \<and> \<not> is_space c) s"

definition digits :: "string \<Rightarrow> bool" where
  \<comment> \<open>the text \<^verbatim>\<open>\d+\<close> matches in full\<close>
  "digits s = (s \<noteq> [] \<and> list_all is_digit s)"

definition int_literal :: "string \<Rightarrow> bool" where
  \<comment> \<open>the text \<^verbatim>\<open>-?\d+\<close> matches in full\<close>
  "int_literal l = (digits l \<or> (l \<noteq> [] \<and> hd l = CHR ''-'' \<and> digits (tl l)))"

definition literal_val :: "string \<Rightarrow> int" where
  "literal_val l = (if l \<noteq> [] \<and> hd l = CHR ''-'' then - digits_val (tl l) else digits_val l)"

definition step_group :: "string \<Rightarrow> string option" where
  \<comment> \<open>the last part of \<open>pattern_match\<close>: the optional group \<^verbatim>\<open>(:\s*(?P<step>-?\d+))?\<close> after
     \<^verbatim>\<open>\s*\<close>\<close>
  "step_group r3 =
     (case dropWhile is_space r3 of
        [] \<Rightarrow> None
      | c' # r4 \<Rightarrow> if c' \<noteq> CHR '':'' then None
                   else map_option fst (take_int (dropWhile is_space r4)))"

definition starts_int :: "string \<Rightarrow> bool" where
  "starts_int r =
     (case r of
        [] \<Rightarrow> False
      | c # cs \<Rightarrow> is_digit c \<or> (c = CHR ''-'' \<and> cs \<noteq> [] \<and> is_digit (hd cs)))"

definition trailing :: "string \<Rightarrow> bool" where
  \<comment> \<open>what may follow \<^verbatim>\<open><int>:<int>\<close> inside one token without being part of the match: no
     comma or whitespace, no further digit at its start, no \<^verbatim>\<open>:<int>\<close> at its start\<close>
  "trailing rest =
     (no_sep rest \<and>
      (case rest of
         [] \<Rightarrow> True
       | c # r \<Rightarrow> \<not> is_digit c \<and> \<not> (c = CHR '':'' \<and> starts_int r)))"

definition values_of :: "parsed \<Rightarrow> py_exn + int list" where
  \<comment> \<open>the list returned, without the sink calls\<close>
  "values_of r = (case r of Inl e \<Rightarrow> Inl e | Inr (xs, out) \<Rightarrow> Inr xs)"

fun concat_values :: "(py_exn + int list) list \<Rightarrow> py_exn + int list" where
  "concat_values [] = Inr []"
| "concat_values (r # rs) =
     (case r of
        Inl e \<Rightarrow> Inl e
      | Inr xs \<Rightarrow> (case concat_values rs of Inl e \<Rightarrow> Inl e | Inr ys \<Rightarrow> Inr (xs @ ys)))"



definition built_commands :: "config list \<Rightarrow> Command list" where
  "built_commands cfgs = (case build_commands cfgs of Inr (cs, out) \<Rightarrow> cs | Inl e \<Rightarrow> [])"

text \<open>Configurations used as concrete inputs; the first three are those of the help text.\<close>

definition note_config :: config where
  "note_config =
     [(''name'', PStr ''example''), (''event'', PStr ''note_on''),
      (''note'', PList [PInt 64, PInt 65, PInt 66]),
      (''command'', PStr ''echo $VALUE $PERCENTAGE'')]"



definition unknown_event_config :: config where
  "unknown_event_config = [(''event'', PStr ''foo''), (''command'', PStr ''echo $VALUE'')]"

definition invalid_mapping_config :: config where
  "invalid_mapping_config =
     [(''event'', PStr ''note_on''), (''command'', PStr ''echo $DECIMAL''),
      (''mapping'', PStr ''abc'')]"


section \<open>Ranges\<close>

lemma map_shift_upto: "map (\<lambda>k. a + k) [0..n] = [a..a + n]"
  by (rule nth_equalityI) auto

lemma py_range_step1: "py_range a (b + 1) 1 = [a..b]"
  using map_shift_upto[of a "b - a"] by (simp add: py_range_def)

text \<open>
  \<open>py_range\<close> has the contents the Python documentation gives for \<^verbatim>\<open>range\<close>: the element
  at index \<open>i\<close> is \<open>start + step * i\<close>, for the indices \<open>i \<ge> 0\<close> with that value below
  \<open>stop\<close> (positive step) or above \<open>stop\<close> (negative step).
\<close>

lemma le_div_pos:
  assumes "0 < (s::int)"
  shows "k \<le> x div s \<longleftrightarrow> k * s \<le> x"
proof
  assume "k \<le> x div s"
  then have "k * s \<le> (x div s) * s" using assms by (simp add: mult_right_mono)
  also have "\<dots> = x - x mod s" by (simp add: minus_mod_eq_div_mult)
  also have "\<dots> \<le> x" using assms by simp
  finally show "k * s \<le> x" .
next
  assume a: "k * s \<le> x"
  show "k \<le> x div s"
  proof (rule ccontr)
    assume "\<not> k \<le> x div s"
    then have "x div s + 1 \<le> k" by simp
    then have "(x div s + 1) * s \<le> k * s" using assms by (simp add: mult_right_mono)
    moreover have "(x div s + 1) * s = x - x mod s + s"
      by (simp add: minus_mod_eq_div_mult algebra_simps)
    moreover have "x mod s < s" using assms by simp
    ultimately show False using a by linarith
  qed
qed

lemma set_py_range_pos:
  assumes "0 < step"
  shows "set (py_range start stop step) = {x. \<exists>k\<ge>0. x = start + step * k \<and> x < stop}"
proof -
  let ?n = "(stop - start + step - 1) div step"
  have k: "k \<le> ?n - 1 \<longleftrightarrow> start + step * k < stop" for k
  proof -
    have "k \<le> ?n - 1 \<longleftrightarrow> k + 1 \<le> ?n" by linarith
    also have "\<dots> \<longleftrightarrow> (k + 1) * step \<le> stop - start + step - 1"
      by (rule le_div_pos[OF assms])
    also have "\<dots> \<longleftrightarrow> start + step * k < stop" by (simp add: algebra_simps) linarith
    finally show ?thesis .
  qed
  have "set (py_range start stop step) = (\<lambda>k. start + step * k) ` {0..?n - 1}"
    using assms by (simp add: py_range_def)
  also have "\<dots> = {x. \<exists>k\<ge>0. x = start + step * k \<and> x < stop}"
    using k by auto
  finally show ?thesis .
qed

lemma set_py_range_neg:
  assumes "step < 0"
  shows "set (py_range start stop step) = {x. \<exists>k\<ge>0. x = start + step * k \<and> stop < x}"
proof -
  let ?n = "(start - stop - step - 1) div (- step)"
  have s: "0 < - step" using assms by simp
  have k: "k \<le> ?n - 1 \<longleftrightarrow> stop < start + step * k" for k
  proof -
    have "k \<le> ?n - 1 \<longleftrightarrow> k + 1 \<le> ?n" by linarith
    also have "\<dots> \<longleftrightarrow> (k + 1) * (- step) \<le> start - stop - step - 1"
      by (rule le_div_pos[OF s])
    also have "\<dots> \<longleftrightarrow> stop < start + step * k" by (simp add: algebra_simps) linarith
    finally show ?thesis .
  qed
  have "set (py_range start stop step) = (\<lambda>k. start + step * k) ` {0..?n - 1}"
    using assms by (simp add: py_range_def)
  also have "\<dots> = {x. \<exists>k\<ge>0. x = start + step * k \<and> stop < x}"
    using k by auto
  finally show ?thesis .
qed

lemma py_range_nth:
  "i < length (py_range start stop step) \<Longrightarrow> py_range start stop step ! i = start + step * int i"
  by (auto simp: py_range_def split: if_splits)

section \<open>The unit tests of the repository\<close>

text \<open>The assertions of \<^verbatim>\<open>tests/test_midi_launcher.py\<close>, all with the default arguments.\<close>

lemma test_string_input:
  "parse_user_input (PInt 1) (0, 127) [] CHR ''-'' = Inr ([1], [])"
  "parse_user_input (PStr []) (0, 127) [] CHR ''-'' = Inr ([], [])"
  "parse_user_input (PStr ''1'') (0, 127) [] CHR ''-'' = Inr ([1], [])"
  "parse_user_input (PStr ''1, 2, 3'') (0, 127) [] CHR ''-'' = Inr ([1, 2, 3], [])"
  "parse_user_input (PStr ''1 2 3'') (0, 127) [] CHR ''-'' = Inr ([1, 2, 3], [])"
  "parse_user_input (PStr ''1-4'') (0, 127) [] CHR ''-'' = Inr ([1, 2, 3, 4], [])"
  "parse_user_input (PStr ''1:4'') (0, 127) [] CHR ''-'' = Inr ([1, 2, 3, 4], [])"
  "parse_user_input (PStr ''1:4:1'') (0, 127) [] CHR ''-'' = Inr ([1, 2, 3, 4], [])"
  "parse_user_input (PStr ''1:4:2'') (0, 127) [] CHR ''-'' = Inr ([1, 3], [])"
  "parse_user_input (PStr ''all'') (1, 4) [] CHR ''-'' = Inr ([1, 2, 3, 4], [])"
  "parse_user_input (PList [PInt 1]) (0, 127) [] CHR ''-'' = Inr ([1], [])"
  "parse_user_input (PList [PInt 1, PInt 2, PInt 3]) (0, 127) [] CHR ''-'' = Inr ([1, 2, 3], [])"
  "parse_user_input (PList [PInt 1, PStr ''2:4'', PInt 3]) (0, 127) [] CHR ''-''
     = Inr ([1, 2, 3, 4, 3], [])"
  "parse_user_input (PList [PStr ''all'']) (1, 4) [] CHR ''-'' = Inr ([1, 2, 3, 4], [])"
  "parse_user_input (PList [PInt 1, PStr ''all'', PInt 3]) (1, 4) [] CHR ''-''
     = Inr ([1, 1, 2, 3, 4, 3], [])"
  "parse_user_input (PList [PInt 1, PList [PInt 2, PInt 3]]) (0, 127) [] CHR ''-''
     = Inr ([1, 2, 3], [])"
  by code_simp+

section \<open>Characters\<close>

lemma digit_not_special:
  assumes "is_digit c"
  shows "\<not> is_space c" "c \<noteq> CHR '',''" "c \<noteq> CHR '':''" "c \<noteq> CHR ''-''" "c \<noteq> CHR ''_''"
        "c \<noteq> CHR ''+''" "lower_char c = c" "\<not> is_strip_space c" "isdigit_char c"
  using assms
  by (auto simp: is_digit_def is_space_def is_strip_space_def isdigit_char_def lower_char_def
        Let_def)

lemma special_chars [simp]:
  "\<not> is_digit CHR '':''" "\<not> is_digit CHR ''-''" "\<not> is_digit CHR '',''"
  "\<not> is_space CHR '':''" "\<not> is_space CHR ''-''" "\<not> is_space CHR ''+''"
  "\<not> is_strip_space CHR ''-''" "\<not> isdigit_char CHR '':''"
  "lower_char CHR '':'' = CHR '':''" "lower_char CHR ''-'' = CHR ''-''"
  by (simp_all add: is_digit_def is_space_def is_strip_space_def isdigit_char_def lower_char_def)

lemma lower_char_space [simp]: "is_space (lower_char c) = is_space c"
  by (auto simp: is_space_def lower_char_def Let_def)

lemma lower_char_digit [simp]: "is_digit (lower_char c) = is_digit c"
  by (auto simp: is_digit_def lower_char_def Let_def)

lemma of_char_lower_char:
  "(of_char (lower_char c) :: nat) =
     (if (65 \<le> (of_char c :: nat) \<and> (of_char c :: nat) \<le> 90)
         \<or> (192 \<le> (of_char c :: nat) \<and> (of_char c :: nat) \<le> 222 \<and> (of_char c :: nat) \<noteq> 215)
      then of_char c + 32 else of_char c)"
  by (simp add: lower_char_def Let_def)

lemma lower_char_colon [simp]: "lower_char c = CHR '':'' \<longleftrightarrow> c = CHR '':''"
proof -
  have "lower_char c = CHR '':'' \<longleftrightarrow> (of_char (lower_char c) :: nat) = of_char CHR '':''"
    by (simp only: of_char_eq_iff)
  also have "\<dots> \<longleftrightarrow> (of_char c :: nat) = of_char CHR '':''"
    by (auto simp: of_char_lower_char)
  also have "\<dots> \<longleftrightarrow> c = CHR '':''"
    by (simp only: of_char_eq_iff)
  finally show ?thesis .
qed

lemma lower_literal: "list_all (\<lambda>c. is_digit c \<or> c = CHR ''-'' \<or> c = CHR '':'') s \<Longrightarrow> lower s = s"
  by (induction s) (auto simp: lower_def digit_not_special)

section \<open>Splitting a string into tokens\<close>

lemma no_sep_append [simp]: "no_sep (a @ b) \<longleftrightarrow> no_sep a \<and> no_sep b"
  by (simp add: no_sep_def)

lemma no_sep_Cons [simp]: "no_sep (c # s) \<longleftrightarrow> c \<noteq> CHR '','' \<and> \<not> is_space c \<and> no_sep s"
  by (simp add: no_sep_def)

lemma no_sep_Nil [simp]: "no_sep []"
  by (simp add: no_sep_def)

lemma re_split_from_no_sep: "no_sep s \<Longrightarrow> re_split_from cur s = [rev cur @ s]"
  by (induction s arbitrary: cur) auto

lemma re_split_no_sep: "no_sep s \<Longrightarrow> re_split s = [s]"
  by (simp add: re_split_def re_split_from_no_sep)

lemma dropWhile_space_no_sep: "no_sep s \<Longrightarrow> dropWhile is_space s = s"
  by (cases s) auto

lemma re_split_from_comma:
  "no_sep a \<Longrightarrow> no_sep b \<Longrightarrow> re_split_from cur (a @ CHR '','' # b) = [rev cur @ a, b]"
  by (induction a arbitrary: cur) (auto simp: dropWhile_space_no_sep re_split_from_no_sep)

lemma re_split_comma: "no_sep a \<Longrightarrow> no_sep b \<Longrightarrow> re_split (a @ CHR '','' # b) = [a, b]"
  using re_split_from_comma[of a b "[]"] by (simp add: re_split_def)

lemma parse_string_token:
  "no_sep s \<Longrightarrow> parse_string s dr hdr sep =
     (if s = [] then Inr ([], [])
      else if s = ''all'' then Inr ([fst dr..snd dr], [])
      else parse_single s dr hdr sep)"
  by (subst parse_string.simps) (simp add: re_split_no_sep py_range_step1)

lemma parse_string_comma:
  assumes "no_sep a" "no_sep b"
  shows "parse_string (a @ '','' @ b) dr hdr sep =
           extend_all [parse_string a dr hdr sep, parse_string b dr hdr sep]"
proof -
  have "a @ '','' @ b \<noteq> ''all''"
  proof
    assume "a @ '','' @ b = ''all''"
    then have "CHR '','' \<in> set ''all''" by (metis in_set_conv_decomp append_Cons append_Nil)
    then show False by simp
  qed
  then show ?thesis
    by (subst parse_string.simps) (simp add: re_split_comma assms)
qed

section \<open>Integer literals\<close>

lemma digitpart_digits: "list_all is_digit ds \<Longrightarrow> ds \<noteq> [] \<Longrightarrow> digitpart ds"
  by (induction ds rule: digitpart.induct) (auto simp: digit_not_special)

lemma filter_digits: "list_all is_digit ds \<Longrightarrow> filter (\<lambda>c. c \<noteq> CHR ''_'') ds = ds"
  by (induction ds) (auto simp: digit_not_special)

lemma while_hd: "xs = [] \<or> \<not> P (hd xs) \<Longrightarrow> dropWhile P xs = xs \<and> takeWhile P xs = []"
  by (cases xs) auto

lemma strip_id:
  "s \<noteq> [] \<Longrightarrow> \<not> is_strip_space (hd s) \<Longrightarrow> \<not> is_strip_space (last s) \<Longrightarrow> strip s = s"
proof -
  assume a: "s \<noteq> []" "\<not> is_strip_space (hd s)" "\<not> is_strip_space (last s)"
  have 1: "dropWhile is_strip_space s = s" using a by (cases s) auto
  have "rev s \<noteq> []" "hd (rev s) = last s" using a by (simp_all add: hd_rev)
  then have 2: "dropWhile is_strip_space (rev s) = rev s"
    using a while_hd[of "rev s" is_strip_space] by simp
  show ?thesis by (simp add: strip_def 1 2)
qed

lemma int_literal_cases:
  assumes "int_literal l"
  obtains (pos) "l \<noteq> []" "list_all is_digit l"
        | (neg) ds where "l = CHR ''-'' # ds" "ds \<noteq> []" "list_all is_digit ds"
  using assms unfolding int_literal_def digits_def by (cases l) auto

lemma py_int_literal: "int_literal l \<Longrightarrow> py_int l = Inr (literal_val l)"
proof (erule int_literal_cases)
  assume a: "l \<noteq> []" "list_all is_digit l"
  then obtain c cs where l: "l = c # cs" by (cases l) auto
  have dl: "is_digit (last l)" using a by (metis last_in_set list_all_iff)
  have dh: "is_digit c" using a l by simp
  have "strip l = l" using a dl dh l by (intro strip_id) (auto simp: digit_not_special)
  then show ?thesis using a l dh
    by (simp add: py_int_def Let_def literal_val_def digit_not_special digitpart_digits filter_digits
             del: digitpart.simps)
next
  fix ds assume a: "l = CHR ''-'' # ds" "ds \<noteq> []" "list_all is_digit ds"
  have dl: "is_digit (last ds)" using a by (metis last_in_set list_all_iff)
  have "strip l = l" using a dl by (intro strip_id) (auto simp: digit_not_special)
  then show ?thesis using a
    by (simp add: py_int_def Let_def literal_val_def digitpart_digits filter_digits)
qed

lemma takeWhile_digits:
  "list_all is_digit ds \<Longrightarrow> rest = [] \<or> \<not> is_digit (hd rest) \<Longrightarrow>
   takeWhile is_digit (ds @ rest) = ds \<and> dropWhile is_digit (ds @ rest) = rest"
  using while_hd[of rest is_digit] by (induction ds) auto

lemma take_int_literal:
  assumes "int_literal l" and "rest = [] \<or> \<not> is_digit (hd rest)"
  shows "take_int (l @ rest) = Some (l, rest)"
proof (rule int_literal_cases[OF assms(1)])
  assume a: "l \<noteq> []" "list_all is_digit l"
  then obtain c cs where l: "l = c # cs" by (cases l) auto
  then have "is_digit c" using a by simp
  then have "c \<noteq> CHR ''-''" by (simp add: digit_not_special)
  then show ?thesis using takeWhile_digits[OF a(2) assms(2)] a l
    by (simp add: take_int_def Let_def)
next
  fix ds assume a: "l = CHR ''-'' # ds" "ds \<noteq> []" "list_all is_digit ds"
  show ?thesis using takeWhile_digits[OF a(3) assms(2)] a
    by (simp add: take_int_def Let_def)
qed

lemma int_literal_no_sep: "int_literal l \<Longrightarrow> no_sep l"
  by (erule int_literal_cases) (auto simp: no_sep_def list_all_iff digit_not_special)

lemma int_literal_hd: "int_literal l \<Longrightarrow> l \<noteq> [] \<and> \<not> is_space (hd l) \<and> (is_digit (hd l) \<or> hd l = CHR ''-'')"
  by (erule int_literal_cases) (auto simp: neq_Nil_conv digit_not_special)

lemma pattern_match_prefix:
  assumes "int_literal a" "int_literal b" "rest = [] \<or> \<not> is_digit (hd rest)"
  shows "pattern_match (a @ CHR '':'' # b @ rest) = Some (a, b, step_group rest)"
proof -
  have 1: "take_int (a @ CHR '':'' # b @ rest) = Some (a, CHR '':'' # b @ rest)"
    using take_int_literal[OF assms(1), of "CHR '':'' # b @ rest"] by simp
  have 2: "dropWhile is_space (b @ rest) = b @ rest"
    using int_literal_hd[OF assms(2)] by (cases b) auto
  have 3: "take_int (b @ rest) = Some (b, rest)"
    by (rule take_int_literal[OF assms(2,3)])
  show ?thesis
    by (simp add: pattern_match_def 1 2 3 step_group_def)
qed

lemma lower_int_literal: "int_literal l \<Longrightarrow> lower l = l"
  by (erule int_literal_cases) (auto simp: lower_def list_all_iff digit_not_special intro: map_idI)

lemma lower_append: "lower (a @ b) = lower a @ lower b"
  by (simp add: lower_def)

lemma lower_Cons: "lower (c # s) = lower_char c # lower s"
  by (simp add: lower_def)

lemma lower_hd: "rest \<noteq> [] \<Longrightarrow> hd (lower rest) = lower_char (hd rest)"
  by (cases rest) (simp_all add: lower_def)

lemma lower_Nil_iff: "lower rest = [] \<longleftrightarrow> rest = []"
  by (simp add: lower_def)

lemma colon_token_facts:
  assumes "int_literal a"
  shows "a @ CHR '':'' # r \<noteq> []" "a @ CHR '':'' # r \<noteq> ''all''" "\<not> isdigit (a @ CHR '':'' # r)"
proof -
  show "a @ CHR '':'' # r \<noteq> []" by simp
  show "a @ CHR '':'' # r \<noteq> ''all''"
  proof
    assume e: "a @ CHR '':'' # r = ''all''"
    have "hd (a @ CHR '':'' # r) = hd a" using int_literal_hd[OF assms] by simp
    with e have "hd a = CHR ''a''" by simp
    with int_literal_hd[OF assms] show False by (auto simp: is_digit_def)
  qed
  show "\<not> isdigit (a @ CHR '':'' # r)" by (simp add: isdigit_def)
qed

lemma parse_colon_no_step:
  assumes "int_literal a" "int_literal b"
  shows "parse_colon a b None u dr hdr =
           (if literal_val b < literal_val a
            then Inr ([], header_out print_error hdr @ [print_error StartGreater])
            else Inr ([literal_val a..literal_val b],
                      if outside (literal_val a) (literal_val b) dr
                      then header_out print_warning hdr @ [print_warning (RangeOutside u)]
                      else []))"
  by (simp add: parse_colon_def then_exn_def py_int_literal[OF assms(1)] py_int_literal[OF assms(2)]
        range3_def py_range_step1)

lemma parse_colon_step:
  assumes "int_literal a" "int_literal b" "int_literal c"
  shows "parse_colon a b (Some c) u dr hdr =
           (if literal_val b < literal_val a
            then Inr ([], header_out print_error hdr @ [print_error StartGreater])
            else if literal_val c = 0 then Inl ValueError
            else if literal_val c < 0
            then Inr (py_range (literal_val b) (literal_val a + 1) (literal_val c),
                      if outside (literal_val b) (literal_val a) dr
                      then header_out print_warning hdr @ [print_warning (RangeOutside u)]
                      else [])
            else Inr (py_range (literal_val a) (literal_val b + 1) (literal_val c),
                      if outside (literal_val a) (literal_val b) dr
                      then header_out print_warning hdr @ [print_warning (RangeOutside u)]
                      else []))"
  by (simp add: parse_colon_def then_exn_def py_int_literal[OF assms(1)] py_int_literal[OF assms(2)]
        py_int_literal[OF assms(3)] range3_def Let_def)

lemma step_group_literal: "int_literal c \<Longrightarrow> step_group (CHR '':'' # c) = Some c"
  using take_int_literal[of c "[]"] int_literal_hd[of c] while_hd[of c is_space]
  by (simp add: step_group_def)

lemma parse_string_colon:
  assumes "int_literal a" "int_literal b" "no_sep rest" "rest = [] \<or> \<not> is_digit (hd rest)"
  shows "parse_string (a @ CHR '':'' # b @ rest) dr hdr sep =
           parse_colon a b (step_group (lower rest)) (a @ CHR '':'' # b @ rest) dr hdr"
proof -
  let ?u = "a @ CHR '':'' # b @ rest"
  have ns: "no_sep ?u" using assms by (simp add: int_literal_no_sep)
  have lo: "lower ?u = a @ CHR '':'' # b @ lower rest"
    by (simp add: lower_append lower_Cons lower_int_literal assms)
  have r: "lower rest = [] \<or> \<not> is_digit (hd (lower rest))"
    using assms(4) by (cases rest) (auto simp: lower_def)
  have pm: "pattern_match (lower ?u) = Some (a, b, step_group (lower rest))"
    unfolding lo by (rule pattern_match_prefix[OF assms(1,2) r])
  show ?thesis
    using colon_token_facts[OF assms(1), of "b @ rest"]
    by (simp add: parse_string_token[OF ns] parse_single_def pm)
qed

lemma lower_char_eq_iff:
  assumes "(of_char d :: nat) < 65"
  shows "lower_char c = d \<longleftrightarrow> c = d"
proof -
  have "lower_char c = d \<longleftrightarrow> (of_char (lower_char c) :: nat) = of_char d"
    by (simp only: of_char_eq_iff)
  also have "\<dots> \<longleftrightarrow> (of_char c :: nat) = of_char d"
    using assms by (auto simp: of_char_lower_char)
  also have "\<dots> \<longleftrightarrow> c = d"
    by (simp only: of_char_eq_iff)
  finally show ?thesis .
qed

lemma lower_char_minus [simp]: "lower_char c = CHR ''-'' \<longleftrightarrow> c = CHR ''-''"
  by (rule lower_char_eq_iff) simp

lemma lower_char_comma [simp]: "lower_char c = CHR '','' \<longleftrightarrow> c = CHR '',''"
  by (rule lower_char_eq_iff) simp

lemma take_int_None: "\<not> starts_int r \<Longrightarrow> take_int r = None"
  by (cases r; cases "tl r") (auto simp: starts_int_def take_int_def Let_def)

lemma starts_int_lower: "starts_int (lower r) = starts_int r"
  by (cases r; cases "tl r") (auto simp: starts_int_def lower_def)

lemma step_group_trailing: "trailing rest \<Longrightarrow> step_group (lower rest) = None"
proof (cases rest)
  case Nil
  then show ?thesis by (simp add: step_group_def lower_def)
next
  case (Cons c r)
  assume t: "trailing rest"
  with Cons have ns: "\<not> is_space c" "no_sep r" and nd: "\<not> (c = CHR '':'' \<and> starts_int r)"
    by (simp_all add: trailing_def)
  have nsl: "no_sep (lower r)" using ns(2) by (simp add: no_sep_def lower_def list_all_iff)
  show ?thesis
  proof (cases "c = CHR '':''")
    case True
    with nd have "\<not> starts_int (lower r)" by (simp add: starts_int_lower)
    then have "take_int (lower r) = None" by (rule take_int_None)
    with True Cons show ?thesis
      by (simp add: step_group_def lower_Cons dropWhile_space_no_sep[OF nsl])
  next
    case False
    with Cons ns show ?thesis by (simp add: step_group_def lower_Cons)
  qed
qed

lemma parse_string_colon_plain:
  assumes "int_literal a" "int_literal b" "trailing rest"
  shows "parse_string (a @ CHR '':'' # b @ rest) dr hdr sep =
           (if literal_val b < literal_val a
            then Inr ([], header_out print_error hdr @ [print_error StartGreater])
            else Inr ([literal_val a..literal_val b],
                      if outside (literal_val a) (literal_val b) dr
                      then header_out print_warning hdr
                           @ [print_warning (RangeOutside (a @ CHR '':'' # b @ rest))]
                      else []))"
proof -
  have r: "rest = [] \<or> \<not> is_digit (hd rest)" and ns: "no_sep rest"
    using assms(3) by (cases rest; simp add: trailing_def)+
  show ?thesis
    using parse_string_colon[OF assms(1,2) ns r, of dr hdr sep]
    by (simp add: step_group_trailing[OF assms(3)] parse_colon_no_step[OF assms(1,2)])
qed

lemma parse_string_colon_step:
  assumes "int_literal a" "int_literal b" "int_literal c"
  shows "parse_string (a @ CHR '':'' # b @ CHR '':'' # c) dr hdr sep =
           parse_colon a b (Some c) (a @ CHR '':'' # b @ CHR '':'' # c) dr hdr"
proof -
  have ns: "no_sep (CHR '':'' # c)"
    using int_literal_no_sep[OF assms(3)] by simp
  have lo: "lower (CHR '':'' # c) = CHR '':'' # c"
    by (simp add: lower_Cons lower_int_literal[OF assms(3)])
  show ?thesis
    using parse_string_colon[OF assms(1,2) ns, of dr hdr sep]
    by (simp add: lo step_group_literal[OF assms(3)])
qed

lemma values_of_extend_all: "values_of (extend_all rs) = concat_values (map values_of rs)"
  by (induction rs) (auto simp: values_of_def then_exn_def split: sum.splits prod.splits)

lemma values_of_list_item:
  "values_of (case item of
                PInt n \<Rightarrow> int_item n dr hdr
              | PBool b \<Rightarrow> int_item (int_of_bool b) dr hdr
              | PStr s \<Rightarrow> parse_string s dr hdr sep
              | PList l \<Rightarrow> parse_user_input item dr hdr sep
              | _ \<Rightarrow> Inr ([], []))
   = values_of (parse_user_input item dr hdr sep)"
  by (cases item) (simp_all add: values_of_def int_item_def)

lemma values_of_parse_list:
  "values_of (parse_user_input (PList items) dr hdr sep) =
     concat_values (map (\<lambda>item. values_of (parse_user_input item dr hdr sep)) items)"
  by (simp add: values_of_extend_all comp_def values_of_list_item)

lemma literal_simps:
  "int_literal ''0''" "int_literal ''1''" "int_literal ''2''" "int_literal ''4''"
  "int_literal ''5''" "int_literal ''-1''"
  "literal_val ''0'' = 0" "literal_val ''1'' = 1" "literal_val ''2'' = 2" "literal_val ''4'' = 4"
  "literal_val ''5'' = 5" "literal_val ''-1'' = - 1"
  by (simp_all add: int_literal_def digits_def is_digit_def literal_val_def digits_val_def
        digit_val_def)

section \<open>The keyword all\<close>

text \<open>
  C4. For every pair (lo, hi) with lo <= hi, parsing the string "all" with default range
  (lo, hi) returns exactly the ascending list lo, lo + 1, ..., hi, of length hi - lo + 1,
  and calls no sink.
\<close>

theorem parse_all_default_range:
  assumes "lo \<le> hi"
  shows "parse_user_input (PStr ''all'') (lo, hi) header_text range_separator = Inr ([lo..hi], [])
       \<and> length [lo..hi] = nat (hi - lo + 1)
       \<and> set [lo..hi] = {lo..hi}
       \<and> sorted [lo..hi] \<and> distinct [lo..hi]
       \<and> hd [lo..hi] = lo \<and> last [lo..hi] = hi"
proof -
  have "parse_user_input (PStr ''all'') (lo, hi) header_text range_separator = Inr ([lo..hi], [])"
    by (simp add: parse_string.simps py_range_step1)
  moreover have "hd [lo..hi] = lo" using assms by (simp add: upto_rec1)
  moreover have "last [lo..hi] = hi" using assms by (simp add: upto_rec2)
  ultimately show ?thesis by simp
qed

theorem parse_all_default_range_witness:
  "(1::int) \<le> 4 \<and> parse_user_input (PStr ''all'') (1, 4) [] CHR ''-'' = Inr ([1, 2, 3, 4], [])
     \<and> length [1..4::int] = 4"
  using parse_all_default_range[of 1 4 "[]" "CHR ''-''"] by (simp add: upto_rec1)

section \<open>A single integer\<close>

text \<open>
  C8. For every integer n and every default range, parsing n returns exactly the list [n].
  When n lies outside the default range the only effect is a call of the warning sink (after
  the header, when there is one); no exception is raised and n stays in the result.
\<close>

theorem parse_int_unconditional:
  "parse_user_input (PInt n) default_range header_text range_separator =
     Inr ([n], if n < fst default_range \<or> snd default_range < n
               then header_out print_warning header_text @ [print_warning (ValueOutside n)]
               else [])
   \<and> list_all (\<lambda>call. \<not> is_error call)
        (header_out print_warning header_text @ [print_warning (ValueOutside n)])"
  by (simp add: outside_def header_out_def)

section \<open>Colon ranges\<close>

text \<open>
  C10. The colon pattern is matched at the start of a token only. Every single token (a
  string without comma or whitespace) that begins with <int>:<int>, where what follows
  neither goes on with a digit nor with a :<int> step, parses as the colon range of the two
  integers, whatever the trailing characters are: the list from the first to the second
  integer (empty, with the error that the start is greater, when they are inverted), and
  never the error for an unparseable input. The trailing characters show up only in the text
  of the warning for a range outside the default range.
\<close>

theorem colon_prefix_ignores_rest:
  assumes "int_literal a" "int_literal b" "trailing rest"
  shows "parse_user_input (PStr (a @ '':'' @ b @ rest)) default_range header_text range_separator =
           (if literal_val b < literal_val a
            then Inr ([], header_out print_error header_text @ [print_error StartGreater])
            else Inr ([literal_val a..literal_val b],
                      if outside (literal_val a) (literal_val b) default_range
                      then header_out print_warning header_text
                           @ [print_warning (RangeOutside (a @ '':'' @ b @ rest))]
                      else []))"
  using parse_string_colon_plain[OF assms, of default_range header_text range_separator]
  by simp

theorem colon_prefix_ignores_rest_witness:
  "parse_user_input (PStr ''1:4abc'') (0, 127) [] CHR ''-'' = Inr ([1, 2, 3, 4], [])"
proof -
  have t: "trailing ''abc''"
    by (simp add: trailing_def is_space_def is_digit_def)
  show ?thesis
    using colon_prefix_ignores_rest[OF literal_simps(2) literal_simps(4) t,
            of "(0, 127)" "[]" "CHR ''-''"]
    by (simp add: literal_simps outside_def upto_rec1)
qed

text \<open>
  As the claim is worded, for every string: a comma or whitespace after the range splits the
  string first, and what follows is parsed as a token of its own.
\<close>

theorem colon_prefix_counterexample:
  "parse_user_input (PStr ''1:4,9'') (0, 127) [] CHR ''-'' = Inr ([1, 2, 3, 4, 9], [])
   \<and> parse_user_input (PStr ''1:4 abc'') (0, 127) [] CHR ''-'' =
       Inr ([1, 2, 3, 4], [print_error (Unparseable ''abc'')])"
  by code_simp




text \<open>
  C2. \<^verbatim>\<open>parse_user_input\<close> is claimed never to raise, a step literal of zero being answered
  by an empty list and a call of the error sink. The guard \<^verbatim>\<open>if step == 0\<close> compares the
  matched text of the step with the integer 0 and so never holds: for every colon-range
  token s:e:z with s <= e and a step literal z of value zero, the zero reaches \<^verbatim>\<open>range\<close>,
  which raises \<^verbatim>\<open>ValueError\<close>.
\<close>

theorem colon_zero_step_raises:
  assumes "int_literal a" "int_literal b" "int_literal z" "literal_val z = 0"
      and "literal_val a \<le> literal_val b"
  shows "parse_user_input (PStr (a @ '':'' @ b @ '':'' @ z)) default_range header_text range_separator =
           Inl ValueError"
  using parse_string_colon_step[OF assms(1,2,3), of default_range header_text range_separator]
        assms(4,5)
  by (simp add: parse_colon_step[OF assms(1,2,3)])

theorem colon_zero_step_raises_witness:
  "parse_user_input (PStr ''1:4:0'') (0, 127) [] CHR ''-'' = Inl ValueError"
  using colon_zero_step_raises[OF literal_simps(2) literal_simps(4) literal_simps(1),
          of "(0, 127)" "[]" "CHR ''-''"]
  by (simp add: literal_simps)

section \<open>Concatenation\<close>

text \<open>
  C5. For any two single tokens a and b, parsing the comma-joined string "a,b" is parsing a,
  then b, and concatenating: when both return, the lists are appended in this order (nothing
  is sorted or removed) and so are the sink calls; an exception of either comes through. A
  list input likewise returns the concatenation, in element order, of what its elements
  parse to; in particular [1, "2:4", 3] gives [1, 2, 3, 4, 3].
\<close>

theorem parse_concatenates:
  assumes "no_sep a" "no_sep b"
  shows "parse_user_input (PStr (a @ '','' @ b)) dr hdr sep =
           (case parse_user_input (PStr a) dr hdr sep of
              Inl e \<Rightarrow> Inl e
            | Inr (xs, out) \<Rightarrow>
                (case parse_user_input (PStr b) dr hdr sep of
                   Inl e \<Rightarrow> Inl e
                 | Inr (ys, out') \<Rightarrow> Inr (xs @ ys, out @ out')))
       \<and> values_of (parse_user_input (PList items) dr hdr sep) =
           concat_values (map (\<lambda>item. values_of (parse_user_input item dr hdr sep)) items)
       \<and> parse_user_input (PList [PInt 1, PStr ''2:4'', PInt 3]) (0, 127) hdr CHR ''-'' =
           Inr ([1, 2, 3, 4, 3], [])"
proof -
  have 1: "parse_user_input (PStr (a @ '','' @ b)) dr hdr sep =
           (case parse_user_input (PStr a) dr hdr sep of
              Inl e \<Rightarrow> Inl e
            | Inr (xs, out) \<Rightarrow>
                (case parse_user_input (PStr b) dr hdr sep of
                   Inl e \<Rightarrow> Inl e
                 | Inr (ys, out') \<Rightarrow> Inr (xs @ ys, out @ out')))"
    using parse_string_comma[OF assms, of dr hdr sep]
    by (simp add: then_exn_def split: sum.splits prod.splits)
  have t: "trailing []" by (simp add: trailing_def)
  have 24: "parse_string ''2:4'' (0, 127) hdr CHR ''-'' = Inr ([2, 3, 4], [])"
    using parse_string_colon_plain[OF literal_simps(3) literal_simps(4) t,
            of "(0, 127)" hdr "CHR ''-''"]
    by (simp add: literal_simps outside_def upto_rec1)
  have 3: "parse_user_input (PList [PInt 1, PStr ''2:4'', PInt 3]) (0, 127) hdr CHR ''-'' =
           Inr ([1, 2, 3, 4, 3], [])"
    by (simp add: 24 int_item_def outside_def then_exn_def)
  show ?thesis using 1 3 values_of_parse_list by blast
qed

theorem parse_concatenates_witness:
  "parse_user_input (PStr ''1-3,7:9'') (0, 127) [] CHR ''-'' = Inr ([1, 2, 3, 7, 8, 9], [])
   \<and> parse_user_input (PStr ''1-3'') (0, 127) [] CHR ''-'' = Inr ([1, 2, 3], [])
   \<and> parse_user_input (PStr ''7:9'') (0, 127) [] CHR ''-'' = Inr ([7, 8, 9], [])"
proof -
  have a: "parse_user_input (PStr ''1-3'') (0, 127) [] CHR ''-'' = Inr ([1, 2, 3], [])"
    by code_simp
  have b: "parse_user_input (PStr ''7:9'') (0, 127) [] CHR ''-'' = Inr ([7, 8, 9], [])"
    by code_simp
  have n: "no_sep ''1-3''" "no_sep ''7:9''"
    by (simp_all add: is_space_def)
  show ?thesis
    using parse_concatenates[OF n, of "(0, 127)" "[]" "CHR ''-''" "[]"] a b
    by simp
qed

section \<open>Commands built from the example configurations\<close>




section \<open>The mapping field\<close>

lemma py_float_abc: "py_float ''abc'' = Inl ValueError"
  by code_simp

lemma parse_mapping_keeps_invalid_string:
  "parse_mapping (self\<lparr>mapping := PStr ''abc''\<rparr>) =
     Inr (self\<lparr>mapping := PStr ''abc''\<rparr>,
          [print_out CommandLabel, print_out (MappingError (PStr ''abc''))])"
  by (simp add: parse_mapping_def py_float_abc then_exn_def)

text \<open>
  C3. A mapping field that is a string \<^verbatim>\<open>float\<close> cannot read is claimed to fall back to
  (0, 127), the Command staying usable. In the \<^verbatim>\<open>except ValueError\<close> branch of
  \<^verbatim>\<open>parse_mapping\<close> the diagnostic is printed and the method returns without assigning
  \<^verbatim>\<open>[0, 127]\<close>: for the configuration with event "note_on" and mapping "abc" the Command is
  built active, its mapping keeps the string, and the first matching message makes
  \<^verbatim>\<open>execute\<close> raise \<^verbatim>\<open>TypeError\<close>.
\<close>

theorem invalid_mapping_string_is_kept:
  "(case Command_init invalid_mapping_config of
      Inl e \<Rightarrow> False
    | Inr (self, out) \<Rightarrow>
        mapping self = PStr ''abc'' \<and> mapping self \<noteq> PList [PInt 0, PInt 127]
        \<and> truthy (active self)
        \<and> out = [print_out CommandLabel, print_out (MappingError (PStr ''abc''))]
        \<and> execute str_float self (NoteOn 0 64 100) ''nanoPAD2'' = Inl TypeError)"
  unfolding invalid_mapping_config_def
  by code_simp

section \<open>An unrecognised event\<close>

lemma build_commands_retains:
  "build_commands cfgs = Inr (cs, out) \<Longrightarrow> config \<in> set cfgs \<Longrightarrow> config \<noteq> [] \<Longrightarrow>
   Command_init config = Inr (self, out0) \<Longrightarrow> self \<in> set cs"
proof (induction cfgs arbitrary: cs out)
  case Nil
  then show ?case by simp
next
  case (Cons cmd rest)
  show ?case
  proof (cases "cmd = []")
    case True
    with Cons show ?thesis by auto
  next
    case False
    with Cons.prems(1) obtain c o1 cs' o2 where
      c: "Command_init cmd = Inr (c, o1)" and r: "build_commands rest = Inr (cs', o2)"
      and cs: "cs = c # cs'"
      by (auto simp: then_exn_def split: sum.splits prod.splits)
    show ?thesis
    proof (cases "config = cmd")
      case True
      with c Cons.prems(4) cs show ?thesis by simp
    next
      case False
      with Cons.prems(2) have "config \<in> set rest" by simp
      from Cons.IH[OF r this Cons.prems(3,4)] cs show ?thesis by simp
    qed
  qed
qed

text \<open>
  C6. Every Command built from a configuration whose event is not one of the three
  recognised kinds is inactive: its \<open>active\<close> attribute is \<^verbatim>\<open>False\<close> whatever the other
  fields say, \<^verbatim>\<open>execute\<close> returns at once for every message and port and launches nothing,
  and the Command is still a member of the launcher's list of commands.
\<close>

theorem unknown_event_inactive:
  assumes "\<not> event_valid (config_get config ''event'' PNone)"
  shows "case Command_init config of
           Inl e \<Rightarrow> False
         | Inr (self, out) \<Rightarrow>
             active self = PBool False \<and> \<not> truthy (active self)
             \<and> (\<forall>str_float message port_name.
                   execute str_float self message port_name = Inr None)
             \<and> (\<forall>cfgs cs out'.
                   config \<noteq> [] \<longrightarrow> config \<in> set cfgs \<longrightarrow> build_commands cfgs = Inr (cs, out')
                   \<longrightarrow> self \<in> set cs)"
proof -
  obtain self where init: "Command_init config = Inr (self, [print_out InvalidEvent])"
    and act: "active self = PBool False"
    using assms by (simp add: Command_init_def Let_def)
  have ex: "execute str_float self message port_name = Inr None" for str_float message port_name
    by (simp add: execute_def act)
  have keep: "self \<in> set cs"
    if "config \<noteq> []" "config \<in> set cfgs" "build_commands cfgs = Inr (cs, out')" for cfgs cs out'
    using build_commands_retains[OF that(3) that(2) that(1) init] .
  show ?thesis using init act ex keep by auto
qed

theorem unknown_event_inactive_witness:
  "(case Command_init unknown_event_config of
      Inl e \<Rightarrow> False
    | Inr (self, out) \<Rightarrow>
        active self = PBool False
        \<and> execute (\<lambda>r. []) self (NoteOn 0 64 100) ''nanoPAD2'' = Inr None
        \<and> self \<in> set (built_commands [note_config, unknown_event_config]))"
proof -
  have h: "\<not> event_valid (config_get unknown_event_config ''event'' PNone)"
    unfolding unknown_event_config_def by code_simp
  have ne: "unknown_event_config \<noteq> []" by (simp add: unknown_event_config_def)
  obtain cs out where b: "build_commands [note_config, unknown_event_config] = Inr (cs, out)"
    and bc: "built_commands [note_config, unknown_event_config] = cs"
  proof -
    have "case build_commands [note_config, unknown_event_config] of
            Inl e \<Rightarrow> False | Inr r \<Rightarrow> True"
      unfolding note_config_def unknown_event_config_def by code_simp
    then show ?thesis using that by (auto simp: built_commands_def split: sum.splits)
  qed
  from unknown_event_inactive[OF h] obtain self out0 where
    i: "Command_init unknown_event_config = Inr (self, out0)"
    and a: "active self = PBool False"
    and e: "\<forall>str_float message port_name. execute str_float self message port_name = Inr None"
    and k: "\<forall>cfgs cs out'.
              unknown_event_config \<noteq> [] \<longrightarrow> unknown_event_config \<in> set cfgs
              \<longrightarrow> build_commands cfgs = Inr (cs, out') \<longrightarrow> self \<in> set cs"
    by (auto split: sum.splits prod.splits)
  have "unknown_event_config \<in> set [note_config, unknown_event_config]" by simp
  with k ne b have "self \<in> set cs" by blast
  with i a e bc show ?thesis by simp
qed

section \<open>One message, all commands\<close>





section \<open>The payload\<close>





text \<open>
  The percentage of an integer value never sits on a tie: 127 is odd, so \<open>100 * v / 127\<close> is
  at least \<open>1 / 254\<close> away from every half-integer. The result is therefore the same integer
  for any rounding of ties and for any error in the division that stays below that distance.
\<close>

lemma py_round_frac:
  assumes "0 \<le> r" "r < 127"
  shows "py_round (of_int q + of_int r / 127) = (if r \<le> 63 then q else q + 1)"
proof -
  have fl: "\<lfloor>of_int q + of_int r / 127 :: rat\<rfloor> = q"
    using assms by (intro floor_unique) (simp_all add: field_simps)
  have d: "(of_int q + of_int r / 127 :: rat) - of_int q = of_int r / 127" by simp
  show ?thesis
  proof (cases "r \<le> 63")
    case True
    then have "(of_int r / 127 :: rat) < 1 / 2" by (simp add: field_simps)
    then show ?thesis unfolding py_round_def Let_def fl d using True by simp
  next
    case False
    then have "(1 / 2 :: rat) < of_int r / 127" by (simp add: field_simps)
    then show ?thesis unfolding py_round_def Let_def fl d using False by simp
  qed
qed

lemma percentage_of_int: "percentage_of v = (100 * v + 63) div 127"
proof -
  define q where "q = 100 * v div 127"
  define r where "r = 100 * v mod 127"
  have r: "0 \<le> r" "r < 127" by (simp_all add: r_def)
  have v: "100 * v = 127 * q + r" by (simp add: q_def r_def)
  have "(of_int v / 127 * 100 :: rat) = of_int (100 * v) / 127" by simp
  also have "\<dots> = of_int q + of_int r / 127" by (simp add: v add_divide_distrib)
  finally have x: "(of_int v / 127 * 100 :: rat) = of_int q + of_int r / 127" .
  have lhs: "percentage_of v = (if r \<le> 63 then q else q + 1)"
    unfolding percentage_of_def x by (rule py_round_frac[OF r])
  have split: "(100 * v + 63) div 127 = q + (r + 63) div 127"
  proof -
    have "100 * v + 63 = 127 * q + (r + 63)" using v by simp
    then show ?thesis by simp
  qed
  have "(r + 63) div 127 = (if r \<le> 63 then 0 else 1)"
    using r by (auto intro: int_div_pos_eq[of _ _ _ "r - 64"])
  then show ?thesis by (simp add: lhs split)
qed

lemma percentage_bounds:
  assumes "0 \<le> v" "v \<le> 127"
  shows "0 \<le> percentage_of v \<and> percentage_of v \<le> 100"
proof -
  have "(100 * v + 63) div 127 \<le> (100 * 127 + 63) div 127"
    using assms by (intro zdiv_mono1) simp_all
  moreover have "0 \<le> (100 * v + 63) div 127"
    using assms by (simp add: pos_imp_zdiv_nonneg_iff)
  ultimately show ?thesis by (simp add: percentage_of_int)
qed



end
